theory Spec2Isabelle
  imports Main "HOL-Library.Sublist"
begin

section \<open>Tractive sensors: a shallow embedding of components/tractive/sensor.py\<close>

subsection \<open>Values, dictionaries and lookup failures\<close>

text \<open>
  The values an event carries (\<open>dict[str, Any]\<close>) and a sensor stores (\<open>StateType\<close>).
  \<open>PyObj\<close> stands for any object that is none of the others, named by its identity.
\<close>

datatype StateType = PyNone | PyBool bool | PyInt int | PyStr string | PyObj nat

text \<open>A subscript on a dictionary raises \<open>KeyError(key)\<close> when the key is absent.\<close>

datatype error = KeyError string

definition getitem :: "(string \<rightharpoonup> 'v) \<Rightarrow> string \<Rightarrow> error + 'v" where
  "getitem m k = (case m k of None \<Rightarrow> Inl (KeyError k) | Some v \<Rightarrow> Inr v)"

text \<open>
  A string is the list of its bytes. What \<open>str.lower()\<close> makes of a text is decided by
  Python's Unicode tables, which are no part of this module; the model takes that
  function as a parameter (\<open>str_lower\<close> below) and says nothing about it.

  \<open>ascii_lower\<close> is what \<open>str.lower()\<close> does on text of ASCII characters only: the
  letters \<open>A\<close> to \<open>Z\<close> become \<open>a\<close> to \<open>z\<close>, every other character stays. It
  serves to evaluate the model on ASCII examples and stands for \<open>str.lower()\<close> nowhere
  else.
\<close>

definition ascii_lower_char :: "char \<Rightarrow> char" where
  "ascii_lower_char ch =
     (let n = (of_char ch :: nat) in if 65 \<le> n \<and> n \<le> 90 then char_of (n + 32) else ch)"

definition ascii_lower :: "string \<Rightarrow> string" where
  "ascii_lower s = map ascii_lower_char s"

subsection \<open>Imported constants and the built-in \<open>str.lower\<close>\<close>

text \<open>
  The names sensor.py imports from \<open>.const\<close> and \<open>homeassistant.const\<close> are defined in
  those modules, not in this one. Their values are a parameter of the model, and so is
  the one built-in the table calls: \<open>str_lower s\<close> is the result of \<open>s.lower()\<close>.
\<close>

record tractive_const =
  ATTR_BATTERY_LEVEL :: string
  PERCENTAGE :: string
  UnitOfTime_MINUTES :: string
  ATTR_ACTIVITY_LABEL :: string
  ATTR_CALORIES :: string
  ATTR_DAILY_GOAL :: string
  ATTR_MINUTES_ACTIVE :: string
  ATTR_MINUTES_DAY_SLEEP :: string
  ATTR_MINUTES_NIGHT_SLEEP :: string
  ATTR_MINUTES_REST :: string
  ATTR_SLEEP_LABEL :: string
  ATTR_TRACKER_STATE :: string
  DOMAIN :: string
  TRACKER_ACTIVITY_STATUS_UPDATED :: string
  TRACKER_HARDWARE_STATUS_UPDATED :: string
  TRACKER_WELLNESS_STATUS_UPDATED :: string
  CLIENT :: string
  TRACKABLES :: string
  str_lower :: "string \<Rightarrow> string"

text \<open>
  A concrete assignment, used wherever the model is evaluated. Each key follows the
  name of its constant, as in the Home Assistant distribution; the specification's
  example event confirms \<open>battery_level\<close>. \<open>str_lower\<close> is \<open>ascii_lower\<close> here, so
  this assignment is evaluated on ASCII strings only. Nothing that is proved for
  every assignment \<open>c\<close> depends on these values.
\<close>

definition release_const :: tractive_const where
  "release_const =
     \<lparr> ATTR_BATTERY_LEVEL = ''battery_level'',
       PERCENTAGE = ''%'',
       UnitOfTime_MINUTES = ''min'',
       ATTR_ACTIVITY_LABEL = ''activity_label'',
       ATTR_CALORIES = ''calories'',
       ATTR_DAILY_GOAL = ''daily_goal'',
       ATTR_MINUTES_ACTIVE = ''minutes_active'',
       ATTR_MINUTES_DAY_SLEEP = ''minutes_day_sleep'',
       ATTR_MINUTES_NIGHT_SLEEP = ''minutes_night_sleep'',
       ATTR_MINUTES_REST = ''minutes_rest'',
       ATTR_SLEEP_LABEL = ''sleep_label'',
       ATTR_TRACKER_STATE = ''tracker_state'',
       DOMAIN = ''tractive'',
       TRACKER_ACTIVITY_STATUS_UPDATED = ''tractive_tracker_activity_updated'',
       TRACKER_HARDWARE_STATUS_UPDATED = ''tractive_tracker_hardware_status_updated'',
       TRACKER_WELLNESS_STATUS_UPDATED = ''tractive_tracker_wellness_updated'',
       CLIENT = ''client'',
       TRACKABLES = ''trackables'',
       str_lower = ascii_lower \<rparr>"

subsection \<open>Sensor descriptions\<close>

text \<open>The members of the host's enumerations that the table uses.\<close>

datatype SensorDeviceClass = BATTERY | ENUM
datatype EntityCategory = DIAGNOSTIC
datatype SensorStateClass = TOTAL

text \<open>
  \<open>TractiveSensorEntityDescription\<close>: the fields of \<open>SensorEntityDescription\<close> that
  the table sets, \<open>signal_prefix\<close> from \<open>TractiveRequiredKeysMixin\<close>, and the two
  fields the class adds.
\<close>

record TractiveSensorEntityDescription =
  key :: string
  translation_key :: "string option"
  native_unit_of_measurement :: "string option"
  device_class :: "SensorDeviceClass option"
  icon :: "string option"
  entity_category :: "EntityCategory option"
  state_class :: "SensorStateClass option"
  options :: "string list option"
  signal_prefix :: string
  hardware_sensor :: bool
  value_fn :: "StateType \<Rightarrow> StateType"

text \<open>
  The dataclass constructor with its defaults: \<open>hardware_sensor = False\<close>,
  \<open>value_fn = lambda state: state\<close>, every optional field of the host's description
  \<open>None\<close>. An entry of the table is this record with its keyword arguments set.
\<close>

definition Description :: "string \<Rightarrow> string \<Rightarrow> TractiveSensorEntityDescription" where
  "Description k sp =
     \<lparr> key = k,
       translation_key = None,
       native_unit_of_measurement = None,
       device_class = None,
       icon = None,
       entity_category = None,
       state_class = None,
       options = None,
       signal_prefix = sp,
       hardware_sensor = False,
       value_fn = (\<lambda>state. state) \<rparr>"

text \<open>
  \<open>lambda state: state.lower() if isinstance(state, str) else state\<close>, with the
  function that \<open>.lower()\<close> computes as its first argument.
\<close>

definition lower_if_str :: "(string \<Rightarrow> string) \<Rightarrow> StateType \<Rightarrow> StateType" where
  "lower_if_str lower_method state =
     (case state of PyStr s \<Rightarrow> PyStr (lower_method s) | _ \<Rightarrow> state)"

definition SENSOR_TYPES :: "tractive_const \<Rightarrow> TractiveSensorEntityDescription list" where
  "SENSOR_TYPES c =
   [ (Description (ATTR_BATTERY_LEVEL c) (TRACKER_HARDWARE_STATUS_UPDATED c))
       \<lparr> translation_key := Some ''tracker_battery_level'',
         native_unit_of_measurement := Some (PERCENTAGE c),
         device_class := Some BATTERY,
         hardware_sensor := True,
         entity_category := Some DIAGNOSTIC \<rparr>,
     (Description (ATTR_TRACKER_STATE c) (TRACKER_HARDWARE_STATUS_UPDATED c))
       \<lparr> translation_key := Some ''tracker_state'',
         hardware_sensor := True,
         icon := Some ''mdi:radar'',
         entity_category := Some DIAGNOSTIC,
         device_class := Some ENUM,
         options := Some [''not_reporting'', ''operational'', ''system_shutdown_user'',
                          ''system_startup''] \<rparr>,
     (Description (ATTR_MINUTES_ACTIVE c) (TRACKER_ACTIVITY_STATUS_UPDATED c))
       \<lparr> translation_key := Some ''activity_time'',
         icon := Some ''mdi:clock-time-eight-outline'',
         native_unit_of_measurement := Some (UnitOfTime_MINUTES c),
         state_class := Some TOTAL \<rparr>,
     (Description (ATTR_MINUTES_REST c) (TRACKER_WELLNESS_STATUS_UPDATED c))
       \<lparr> translation_key := Some ''rest_time'',
         icon := Some ''mdi:clock-time-eight-outline'',
         native_unit_of_measurement := Some (UnitOfTime_MINUTES c),
         state_class := Some TOTAL \<rparr>,
     (Description (ATTR_CALORIES c) (TRACKER_WELLNESS_STATUS_UPDATED c))
       \<lparr> translation_key := Some ''calories'',
         icon := Some ''mdi:fire'',
         native_unit_of_measurement := Some ''kcal'',
         state_class := Some TOTAL \<rparr>,
     (Description (ATTR_DAILY_GOAL c) (TRACKER_ACTIVITY_STATUS_UPDATED c))
       \<lparr> translation_key := Some ''daily_goal'',
         icon := Some ''mdi:flag-checkered'',
         native_unit_of_measurement := Some (UnitOfTime_MINUTES c) \<rparr>,
     (Description (ATTR_MINUTES_DAY_SLEEP c) (TRACKER_WELLNESS_STATUS_UPDATED c))
       \<lparr> translation_key := Some ''minutes_day_sleep'',
         icon := Some ''mdi:sleep'',
         native_unit_of_measurement := Some (UnitOfTime_MINUTES c),
         state_class := Some TOTAL \<rparr>,
     (Description (ATTR_MINUTES_NIGHT_SLEEP c) (TRACKER_WELLNESS_STATUS_UPDATED c))
       \<lparr> translation_key := Some ''minutes_night_sleep'',
         icon := Some ''mdi:sleep'',
         native_unit_of_measurement := Some (UnitOfTime_MINUTES c),
         state_class := Some TOTAL \<rparr>,
     (Description (ATTR_SLEEP_LABEL c) (TRACKER_WELLNESS_STATUS_UPDATED c))
       \<lparr> translation_key := Some ''sleep'',
         icon := Some ''mdi:sleep'',
         value_fn := lower_if_str (str_lower c),
         device_class := Some ENUM,
         options := Some [''ok'', ''good''] \<rparr>,
     (Description (ATTR_ACTIVITY_LABEL c) (TRACKER_WELLNESS_STATUS_UPDATED c))
       \<lparr> translation_key := Some ''activity'',
         icon := Some ''mdi:run'',
         value_fn := lower_if_str (str_lower c),
         device_class := Some ENUM,
         options := Some [''ok'', ''good''] \<rparr> ]"

subsection \<open>Trackables and the sensor entity\<close>

text \<open>
  \<open>Trackables\<close> is declared in the package's \<open>__init__\<close>; sensor.py reads its two
  dictionaries \<open>trackable\<close> and \<open>tracker_details\<close>, and of each only the entry
  \<open>'_id'\<close>, which the f-strings insert as text. A client is passed on unread.
\<close>

datatype TractiveClient = Client nat

record Trackables =
  trackable :: "string \<rightharpoonup> string"
  tracker_details :: "string \<rightharpoonup> string"

text \<open>
  Modelled from the spec: the base class \<open>TractiveEntity\<close> is defined in entity.py,
  outside this module. The specification says of it that the entity holds the computed
  dispatch-signal name and registers on that signal through the base class; the model
  of its constructor keeps the four arguments it is given and returns.
\<close>

record TractiveEntity =
  client :: TractiveClient
  entity_trackable :: "string \<rightharpoonup> string"
  entity_tracker_details :: "string \<rightharpoonup> string"
  dispatcher_signal :: string

definition TractiveEntity_init ::
  "TractiveClient \<Rightarrow> (string \<rightharpoonup> string) \<Rightarrow> (string \<rightharpoonup> string) \<Rightarrow> string \<Rightarrow> TractiveEntity"
where
  "TractiveEntity_init cl trackable_record details signal =
     \<lparr> client = cl,
       entity_trackable = trackable_record,
       entity_tracker_details = details,
       dispatcher_signal = signal \<rparr>"

text \<open>
  A \<open>TractiveSensor\<close> object: the base object with the attributes sensor.py assigns.
  \<open>attr_native_value = None\<close> is an entity no update has reached yet.
\<close>

record TractiveSensor = TractiveEntity +
  attr_unique_id :: string
  attr_available :: bool
  entity_description :: TractiveSensorEntityDescription
  attr_native_value :: "StateType option"

text \<open>
  \<open>TractiveSensor.__init__\<close>. The subscripts are evaluated in the source's order: the
  identifier the signal is built from, then (after \<open>super().__init__\<close>)
  \<open>item.trackable['_id']\<close> for the unique id.
\<close>

definition TractiveSensor_init ::
  "TractiveClient \<Rightarrow> Trackables \<Rightarrow> TractiveSensorEntityDescription \<Rightarrow> error + TractiveSensor"
where
  "TractiveSensor_init cl item description =
     (case (if hardware_sensor description
            then getitem (tracker_details item) ''_id''
            else getitem (trackable item) ''_id'') of
        Inl e \<Rightarrow> Inl e
      | Inr ident \<Rightarrow>
          (let signal = signal_prefix description @ ''-'' @ ident;
               base = TractiveEntity_init cl (trackable item) (tracker_details item) signal
           in
           case getitem (trackable item) ''_id'' of
             Inl e \<Rightarrow> Inl e
           | Inr tid \<Rightarrow>
               Inr \<lparr> client = client base,
                     entity_trackable = entity_trackable base,
                     entity_tracker_details = entity_tracker_details base,
                     dispatcher_signal = dispatcher_signal base,
                     attr_unique_id = tid @ ''_'' @ key description,
                     attr_available = False,
                     entity_description = description,
                     attr_native_value = None \<rparr>))"

text \<open>
  Modelled from the spec: \<open>TractiveEntity.handle_status_update\<close> is defined in
  entity.py, outside this module. The specification describes it as the shared post-update
  bookkeeping: marking availability true and scheduling a UI refresh (which has no
  state in this model).
\<close>

definition TractiveEntity_handle_status_update :: "TractiveSensor \<Rightarrow> TractiveSensor" where
  "TractiveEntity_handle_status_update self = self\<lparr>attr_available := True\<rparr>"

text \<open>
  \<open>TractiveSensor.handle_status_update\<close>. The subscript \<open>event[key]\<close> is evaluated
  before anything is assigned, so \<open>Inl\<close> is an exception that leaves the entity as it
  was.
\<close>

definition handle_status_update ::
  "TractiveSensor \<Rightarrow> (string \<rightharpoonup> StateType) \<Rightarrow> error + TractiveSensor"
where
  "handle_status_update self event =
     (case getitem event (key (entity_description self)) of
        Inl e \<Rightarrow> Inl e
      | Inr v \<Rightarrow>
          Inr (TractiveEntity_handle_status_update
                 (self\<lparr>attr_native_value := Some (value_fn (entity_description self) v)\<rparr>)))"

text \<open>
  Modelled from the spec: the dispatch bus belongs to the host platform. The
  specification describes a named publish/subscribe channel on which each entity is
  registered under its own signal name: an event sent on a signal reaches the handler
  of an entity registered on that name and no other entity.
\<close>

definition dispatcher_send ::
  "string \<Rightarrow> (string \<rightharpoonup> StateType) \<Rightarrow> TractiveSensor \<Rightarrow> error + TractiveSensor"
where
  "dispatcher_send signal event self =
     (if dispatcher_signal self = signal then handle_status_update self event else Inr self)"

text \<open>
  Modelled from the spec: the sends a dispatch bus makes over time, in order. An
  exception of the handler ends the sequence.
\<close>

fun dispatch_all ::
  "(string \<times> (string \<rightharpoonup> StateType)) list \<Rightarrow> TractiveSensor \<Rightarrow> error + TractiveSensor"
where
  "dispatch_all [] self = Inr self"
| "dispatch_all ((signal, event) # rest) self =
     (case dispatcher_send signal event self of
        Inl e \<Rightarrow> Inl e
      | Inr self' \<Rightarrow> dispatch_all rest self')"

subsection \<open>Setup\<close>

text \<open>
  \<open>hass.data[DOMAIN][entry.entry_id]\<close> is a dictionary with a client under the key
  \<open>CLIENT\<close> and a list of trackables under the key \<open>TRACKABLES\<close>; either entry may
  be absent, and \<open>getslot\<close> is the subscript with that key.
\<close>

record entry_store =
  client_entry :: "TractiveClient option"
  trackables_entry :: "Trackables list option"

record HomeAssistant =
  data :: "string \<rightharpoonup> (string \<rightharpoonup> entry_store)"

record ConfigEntry =
  entry_id :: string

definition getslot :: "string \<Rightarrow> 'v option \<Rightarrow> error + 'v" where
  "getslot name slot = (case slot of None \<Rightarrow> Inl (KeyError name) | Some v \<Rightarrow> Inr v)"

text \<open>
  The list comprehension: the inner loop over the trackables for one description, the
  outer loop over the descriptions. The first constructor that raises ends both.
\<close>

fun for_items ::
  "TractiveClient \<Rightarrow> TractiveSensorEntityDescription \<Rightarrow> Trackables list \<Rightarrow>
   error + TractiveSensor list"
where
  "for_items cl description [] = Inr []"
| "for_items cl description (item # items) =
     (case TractiveSensor_init cl item description of
        Inl e \<Rightarrow> Inl e
      | Inr s \<Rightarrow>
          (case for_items cl description items of
             Inl e \<Rightarrow> Inl e
           | Inr ss \<Rightarrow> Inr (s # ss)))"

fun for_descriptions ::
  "TractiveClient \<Rightarrow> TractiveSensorEntityDescription list \<Rightarrow> Trackables list \<Rightarrow>
   error + TractiveSensor list"
where
  "for_descriptions cl [] trackables = Inr []"
| "for_descriptions cl (description # descriptions) trackables =
     (case for_items cl description trackables of
        Inl e \<Rightarrow> Inl e
      | Inr row \<Rightarrow>
          (case for_descriptions cl descriptions trackables of
             Inl e \<Rightarrow> Inl e
           | Inr others \<Rightarrow> Inr (row @ others)))"

text \<open>
  \<open>async_setup_entry\<close>. The source subscripts \<open>hass.data[DOMAIN][entry.entry_id]\<close>
  once for the client and once more for the trackables; the second time the first two
  subscripts succeed as they did before, so the model keeps their result. The result is
  what the add-entities callback returns for the list it is given.
\<close>

definition async_setup_entry ::
  "tractive_const \<Rightarrow> HomeAssistant \<Rightarrow> ConfigEntry \<Rightarrow> (TractiveSensor list \<Rightarrow> 'r) \<Rightarrow> error + 'r"
where
  "async_setup_entry c hass entry async_add_entities =
     (case getitem (data hass) (DOMAIN c) of
        Inl e \<Rightarrow> Inl e
      | Inr by_entry \<Rightarrow>
     (case getitem by_entry (entry_id entry) of
        Inl e \<Rightarrow> Inl e
      | Inr store \<Rightarrow>
     (case getslot (CLIENT c) (client_entry store) of
        Inl e \<Rightarrow> Inl e
      | Inr cl \<Rightarrow>
     (case getslot (TRACKABLES c) (trackables_entry store) of
        Inl e \<Rightarrow> Inl e
      | Inr trackables \<Rightarrow>
     (case for_descriptions cl (SENSOR_TYPES c) trackables of
        Inl e \<Rightarrow> Inl e
      | Inr entities \<Rightarrow> Inr (async_add_entities entities))))))"

subsection \<open>Well-formed inputs\<close>

text \<open>
  A trackable record as the specification's data model describes it: it carries a
  trackable identifier and a tracker-hardware identifier.
\<close>

definition has_ids :: "Trackables \<Rightarrow> bool" where
  "has_ids item = (trackable item ''_id'' \<noteq> None \<and> tracker_details item ''_id'' \<noteq> None)"

text \<open>
  A unique id is the text \<open>id_key\<close>, so two keys can only be told apart in it when
  neither is the tail of the other after an underscore: with the keys \<open>b_c\<close> and
  \<open>c\<close>, the ids \<open>a\<close> and \<open>a_b\<close> would give \<open>a_b_c\<close> twice. The condition is on
  the imported key names, which are a parameter here.
\<close>

definition unambiguous_keys :: "string list \<Rightarrow> bool" where
  "unambiguous_keys ks =
     (distinct ks \<and> (\<forall>k1\<in>set ks. \<forall>k2\<in>set ks. \<not> suffix (''_'' @ k1) k2))"

subsection \<open>A concrete installation\<close>

text \<open>Two paired devices in the store of one configuration entry.\<close>

definition pet_a :: Trackables where
  "pet_a = \<lparr> trackable = [''_id'' \<mapsto> ''pet1''], tracker_details = [''_id'' \<mapsto> ''hw1''] \<rparr>"

definition pet_b :: Trackables where
  "pet_b = \<lparr> trackable = [''_id'' \<mapsto> ''pet2''], tracker_details = [''_id'' \<mapsto> ''hw2''] \<rparr>"

definition home_store :: entry_store where
  "home_store = \<lparr> client_entry = Some (Client 0), trackables_entry = Some [pet_a, pet_b] \<rparr>"

definition home :: HomeAssistant where
  "home = \<lparr> data = [''tractive'' \<mapsto> [''entry1'' \<mapsto> home_store]] \<rparr>"

definition home_entry :: ConfigEntry where
  "home_entry = \<lparr> entry_id = ''entry1'' \<rparr>"

text \<open>The sleep-label sensor of the first device, as its constructor leaves it.\<close>

definition sleep_sensor :: TractiveSensor where
  "sleep_sensor =
     \<lparr> client = Client 0,
       entity_trackable = trackable pet_a,
       entity_tracker_details = tracker_details pet_a,
       dispatcher_signal = ''tractive_tracker_wellness_updated-pet1'',
       attr_unique_id = ''pet1_sleep_label'',
       attr_available = False,
       entity_description = SENSOR_TYPES release_const ! 8,
       attr_native_value = None \<rparr>"

section \<open>Construction and setup: auxiliary facts\<close>

lemma init_ok:
  "trackable item ''_id'' = Some tid \<Longrightarrow> tracker_details item ''_id'' = Some hid \<Longrightarrow>
   TractiveSensor_init cl item d =
     Inr \<lparr> client = cl, entity_trackable = trackable item,
           entity_tracker_details = tracker_details item,
           dispatcher_signal = signal_prefix d @ ''-'' @ (if hardware_sensor d then hid else tid),
           attr_unique_id = tid @ ''_'' @ key d, attr_available = False,
           entity_description = d, attr_native_value = None \<rparr>"
  by (simp add: TractiveSensor_init_def TractiveEntity_init_def getitem_def)

lemma init_InrD:
  assumes "TractiveSensor_init cl item d = Inr e"
  shows "\<exists>ident tid.
           (if hardware_sensor d then tracker_details item else trackable item) ''_id'' = Some ident \<and>
           trackable item ''_id'' = Some tid \<and>
           dispatcher_signal e = signal_prefix d @ ''-'' @ ident \<and>
           attr_unique_id e = tid @ ''_'' @ key d \<and>
           attr_available e = False \<and> entity_description e = d \<and> attr_native_value e = None"
  using assms
  by (auto simp: TractiveSensor_init_def TractiveEntity_init_def getitem_def
      split: option.splits if_splits)

lemma init_Inl:
  "TractiveSensor_init cl item d = Inl err \<Longrightarrow> err = KeyError ''_id''"
  by (auto simp: TractiveSensor_init_def TractiveEntity_init_def getitem_def
      split: option.splits if_splits)

lemma for_items_rel:
  "for_items cl d ts = Inr es \<Longrightarrow> list_all2 (\<lambda>e t. TractiveSensor_init cl t d = Inr e) es ts"
  by (induction ts arbitrary: es) (auto split: sum.splits)

lemma for_descriptions_rel:
  "for_descriptions cl ds ts = Inr es \<Longrightarrow>
   list_all2 (\<lambda>e (d, t). TractiveSensor_init cl t d = Inr e) es (List.product ds ts)"
proof (induction ds arbitrary: es)
  case Nil
  then show ?case by simp
next
  case (Cons d ds)
  then obtain row others where r: "for_items cl d ts = Inr row"
    and o: "for_descriptions cl ds ts = Inr others" and es: "es = row @ others"
    by (auto split: sum.splits)
  have "list_all2 (\<lambda>e (d, t). TractiveSensor_init cl t d = Inr e) row (map (Pair d) ts)"
    using for_items_rel [OF r] by (simp add: list_all2_map2)
  with Cons.IH [OF o] es show ?case
    by (simp add: list_all2_appendI)
qed

lemma for_items_total:
  "\<forall>t\<in>set ts. has_ids t \<Longrightarrow> \<exists>es. for_items cl d ts = Inr es"
  by (induction ts) (auto simp: has_ids_def init_ok)

lemma for_descriptions_total:
  "\<forall>t\<in>set ts. has_ids t \<Longrightarrow> \<exists>es. for_descriptions cl ds ts = Inr es"
proof (induction ds)
  case Nil
  then show ?case by simp
next
  case (Cons d ds)
  then show ?case using for_items_total [of ts cl d] by auto
qed

lemma for_items_Inl:
  "for_items cl d ts = Inl err \<Longrightarrow> err = KeyError ''_id''"
  by (induction ts) (auto split: sum.splits dest: init_Inl)

lemma for_descriptions_Inl:
  "for_descriptions cl ds ts = Inl err \<Longrightarrow> err = KeyError ''_id''"
  by (induction ds) (auto split: sum.splits dest: for_items_Inl)

lemma setup_lookup:
  assumes "data hass (DOMAIN c) = Some by_entry" and "by_entry (entry_id entry) = Some store"
    and "client_entry store = Some cl" and "trackables_entry store = Some ts"
  shows "async_setup_entry c hass entry add =
           (case for_descriptions cl (SENSOR_TYPES c) ts of Inl e \<Rightarrow> Inl e | Inr es \<Rightarrow> Inr (add es))"
  using assms by (simp add: async_setup_entry_def getitem_def getslot_def)

lemma setup_entities:
  assumes "\<forall>t\<in>set ts. has_ids t"
  shows "\<exists>es. for_descriptions cl ds ts = Inr es \<and>
              list_all2 (\<lambda>e (d, t). TractiveSensor_init cl t d = Inr e) es (List.product ds ts)"
  using for_descriptions_total [OF assms, of cl ds] for_descriptions_rel [of cl ds ts] by blast

lemma for_descriptions_nth:
  assumes "for_descriptions cl ds ts = Inr es" and i: "i < length ds" and j: "j < length ts"
  shows "i * length ts + j < length es \<and>
         TractiveSensor_init cl (ts ! j) (ds ! i) = Inr (es ! (i * length ts + j))"
proof -
  let ?n = "i * length ts + j"
  note r = for_descriptions_rel [OF assms(1)]
  have "?n < Suc i * length ts" using j by simp
  also have "\<dots> \<le> length ds * length ts" using i by (simp only: mult_le_mono1 Suc_leI)
  finally have n: "?n < length ds * length ts" .
  from j have "length ts \<noteq> 0" by auto
  with j have "?n div length ts = i" and "?n mod length ts = j"
    by simp_all
  with n have p: "List.product ds ts ! ?n = (ds ! i, ts ! j)"
    by (simp only: product_nth)
  from r have "length es = length ds * length ts"
    by (simp add: list_all2_lengthD)
  with list_all2_nthD2 [OF r, of ?n] n p show ?thesis by simp
qed

lemma uid_split:
  assumes "a @ ''_'' @ k1 = b @ ''_'' @ k2"
    and "\<not> suffix (''_'' @ k1) k2" and "\<not> suffix (''_'' @ k2) k1"
  shows "a = b \<and> k1 = k2"
proof -
  from assms(1) obtain us where
    "(a = b @ us \<and> us @ ''_'' @ k1 = ''_'' @ k2) \<or> (a @ us = b \<and> ''_'' @ k1 = us @ ''_'' @ k2)"
    by (auto simp: append_eq_append_conv2)
  then show ?thesis
  proof
    assume h: "a = b @ us \<and> us @ ''_'' @ k1 = ''_'' @ k2"
    show ?thesis
    proof (cases us)
      case Nil
      with h show ?thesis by simp
    next
      case (Cons x xs)
      with h have "k2 = xs @ ''_'' @ k1" by simp
      then have "suffix (''_'' @ k1) k2" by (simp add: suffix_def)
      with assms(2) show ?thesis by simp
    qed
  next
    assume h: "a @ us = b \<and> ''_'' @ k1 = us @ ''_'' @ k2"
    show ?thesis
    proof (cases us)
      case Nil
      with h show ?thesis by simp
    next
      case (Cons x xs)
      with h have "k1 = xs @ ''_'' @ k2" by simp
      then have "suffix (''_'' @ k2) k1" by (simp add: suffix_def)
      with assms(3) show ?thesis by simp
    qed
  qed
qed

section \<open>The dispatch signal and the entity list\<close>

text \<open>
  Claim C1. When the item carries both identifiers, construction succeeds and the
  entity's dispatch signal is the description's \<open>signal_prefix\<close>, a hyphen, and the
  tracker-hardware identifier when \<open>hardware_sensor\<close> is set, the trackable identifier
  otherwise. Any other successful construction with the same prefix, the same flag and
  the same selected identifier has the same signal, whatever else differs.
\<close>

theorem dispatcher_signal_by_scope:
  assumes "trackable item ''_id'' = Some tid" and "tracker_details item ''_id'' = Some hid"
  shows "\<exists>e. TractiveSensor_init cl item d = Inr e \<and>
           dispatcher_signal e =
             signal_prefix d @ ''-'' @ (if hardware_sensor d then hid else tid) \<and>
           (\<forall>cl' item' d' e'.
              TractiveSensor_init cl' item' d' = Inr e' \<and>
              signal_prefix d' = signal_prefix d \<and> hardware_sensor d' = hardware_sensor d \<and>
              (if hardware_sensor d then tracker_details item' ''_id'' = Some hid
               else trackable item' ''_id'' = Some tid)
              \<longrightarrow> dispatcher_signal e' = dispatcher_signal e)"
proof -
  let ?e = "\<lparr> client = cl, entity_trackable = trackable item,
           entity_tracker_details = tracker_details item,
           dispatcher_signal = signal_prefix d @ ''-'' @ (if hardware_sensor d then hid else tid),
           attr_unique_id = tid @ ''_'' @ key d, attr_available = False,
           entity_description = d, attr_native_value = None \<rparr>"
  have e: "TractiveSensor_init cl item d = Inr ?e"
    using assms by (rule init_ok)
  have "dispatcher_signal e' = dispatcher_signal ?e"
    if "TractiveSensor_init cl' item' d' = Inr e'"
      and "signal_prefix d' = signal_prefix d" and "hardware_sensor d' = hardware_sensor d"
      and "if hardware_sensor d then tracker_details item' ''_id'' = Some hid
           else trackable item' ''_id'' = Some tid"
    for cl' item' d' e'
    using init_InrD [OF that(1)] that(2-4) by (auto split: if_splits)
  with e show ?thesis by (intro exI [of _ ?e]) auto
qed

theorem dispatcher_signal_by_scope_witness:
  "\<exists>e. TractiveSensor_init (Client 0) pet_a (SENSOR_TYPES release_const ! 0) = Inr e \<and>
       dispatcher_signal e = ''tractive_tracker_hardware_status_updated-hw1''"
proof -
  have 1: "trackable pet_a ''_id'' = Some ''pet1''" by (simp add: pet_a_def)
  have 2: "tracker_details pet_a ''_id'' = Some ''hw1''" by (simp add: pet_a_def)
  show ?thesis
    using dispatcher_signal_by_scope [OF 1 2, of "Client 0" "SENSOR_TYPES release_const ! 0"]
    by (auto simp: SENSOR_TYPES_def Description_def release_const_def)
qed

text \<open>
  Claim C2. With the client and a list of trackables in the entry's store, each
  trackable carrying its identifiers, \<open>async_setup_entry\<close> hands the add-entities
  callback one list of \<open>N * M\<close> entities, \<open>N\<close> the length of \<open>SENSOR_TYPES\<close> and
  \<open>M\<close> the number of trackables: entry by entry, the entities constructed from the
  pairs of the cross product of the descriptions with the trackables.
\<close>

theorem setup_cross_product:
  assumes "data hass (DOMAIN c) = Some by_entry" and "by_entry (entry_id entry) = Some store"
    and "client_entry store = Some cl" and "trackables_entry store = Some ts"
    and "\<forall>t\<in>set ts. has_ids t"
  shows "\<exists>es. async_setup_entry c hass entry add = Inr (add es) \<and>
              length es = length (SENSOR_TYPES c) * length ts \<and>
              list_all2 (\<lambda>e (d, t). TractiveSensor_init cl t d = Inr e) es
                (List.product (SENSOR_TYPES c) ts)"
proof -
  from setup_entities [OF assms(5)] obtain es
    where f: "for_descriptions cl (SENSOR_TYPES c) ts = Inr es"
      and r: "list_all2 (\<lambda>e (d, t). TractiveSensor_init cl t d = Inr e) es
                (List.product (SENSOR_TYPES c) ts)"
    by blast
  have a: "async_setup_entry c hass entry add = Inr (add es)"
    using setup_lookup [OF assms(1-4)] f by simp
  from r have "length es = length (SENSOR_TYPES c) * length ts"
    by (simp add: list_all2_lengthD)
  with a r show ?thesis by blast
qed

lemma home_data: "data home (DOMAIN release_const) = Some [''entry1'' \<mapsto> home_store]"
  by (simp add: home_def release_const_def)

lemma home_by_entry: "[''entry1'' \<mapsto> home_store] (entry_id home_entry) = Some home_store"
  by (simp add: home_entry_def)

lemma home_client: "client_entry home_store = Some (Client 0)"
  by (simp add: home_store_def)

lemma home_trackables: "trackables_entry home_store = Some [pet_a, pet_b]"
  by (simp add: home_store_def)

lemma home_has_ids: "\<forall>t\<in>set [pet_a, pet_b]. has_ids t"
  by (simp add: has_ids_def pet_a_def pet_b_def)

theorem setup_cross_product_witness:
  "\<exists>es. async_setup_entry release_const home home_entry (\<lambda>es. es) = Inr es \<and> length es = 20"
  using setup_cross_product [OF home_data home_by_entry home_client home_trackables home_has_ids,
      of "\<lambda>es. es"]
  by (auto simp: SENSOR_TYPES_def)

text \<open>
  Claim C10. The list handed to the callback is ordered description-major: for
  \<open>i < N\<close> and \<open>j < M\<close>, the entity at index \<open>i * M + j\<close> is the one constructed
  from description \<open>i\<close> of \<open>SENSOR_TYPES\<close> and trackable \<open>j\<close>.
\<close>

theorem setup_descriptor_major:
  assumes "data hass (DOMAIN c) = Some by_entry" and "by_entry (entry_id entry) = Some store"
    and "client_entry store = Some cl" and "trackables_entry store = Some ts"
    and "\<forall>t\<in>set ts. has_ids t"
  shows "\<exists>es. async_setup_entry c hass entry add = Inr (add es) \<and>
              (\<forall>i<length (SENSOR_TYPES c). \<forall>j<length ts.
                 TractiveSensor_init cl (ts ! j) (SENSOR_TYPES c ! i) =
                   Inr (es ! (i * length ts + j)))"
proof -
  from setup_entities [OF assms(5)] obtain es
    where f: "for_descriptions cl (SENSOR_TYPES c) ts = Inr es"
    by blast
  have "async_setup_entry c hass entry add = Inr (add es)"
    using setup_lookup [OF assms(1-4)] f by simp
  with for_descriptions_nth [OF f] show ?thesis by blast
qed

theorem setup_descriptor_major_witness:
  "\<exists>es. async_setup_entry release_const home home_entry (\<lambda>es. es) = Inr es \<and>
        TractiveSensor_init (Client 0) pet_b (SENSOR_TYPES release_const ! 3) = Inr (es ! 7)"
proof -
  from setup_descriptor_major [OF home_data home_by_entry home_client home_trackables home_has_ids,
      of "\<lambda>es. es"]
  obtain es where a: "async_setup_entry release_const home home_entry (\<lambda>es. es) = Inr es"
    and b: "\<forall>i<length (SENSOR_TYPES release_const). \<forall>j<length [pet_a, pet_b].
                 TractiveSensor_init (Client 0) ([pet_a, pet_b] ! j) (SENSOR_TYPES release_const ! i) =
                   Inr (es ! (i * length [pet_a, pet_b] + j))"
    by blast
  have "3 < length (SENSOR_TYPES release_const)" by (simp add: SENSOR_TYPES_def)
  with b have "TractiveSensor_init (Client 0) ([pet_a, pet_b] ! 1) (SENSOR_TYPES release_const ! 3) =
                   Inr (es ! (3 * length [pet_a, pet_b] + 1))"
    by (metis One_nat_def length_Cons lessI list.size(3))
  then have "TractiveSensor_init (Client 0) pet_b (SENSOR_TYPES release_const ! 3) = Inr (es ! 7)"
    by simp
  with a show ?thesis by blast
qed

section \<open>Unique identifiers\<close>

lemma unique_ids_of_product:
  assumes "list_all2 (\<lambda>e (d, t). TractiveSensor_init cl t d = Inr e) es (List.product ds ts)"
  shows "map attr_unique_id es =
           map (\<lambda>(d, t). the (trackable t ''_id'') @ ''_'' @ key d) (List.product ds ts)"
proof -
  have "list_all2 (\<lambda>e p. attr_unique_id e = (\<lambda>(d, t). the (trackable t ''_id'') @ ''_'' @ key d) p)
          es (List.product ds ts)"
    using assms
    by (rule list_all2_mono) (auto dest!: init_InrD)
  then show ?thesis
    by (simp add: list_all2_conv_all_nth list_eq_iff_nth_eq)
qed

lemma unique_id_inj:
  assumes k: "unambiguous_keys (map key ds)"
    and t: "distinct (map (\<lambda>t. trackable t ''_id'') ts)"
    and w: "\<forall>t\<in>set ts. has_ids t"
  shows "inj_on (\<lambda>(d, t). the (trackable t ''_id'') @ ''_'' @ key d) (set ds \<times> set ts)"
proof (rule inj_onI, clarify)
  fix d1 t1 d2 t2
  assume d1: "d1 \<in> set ds" and d2: "d2 \<in> set ds" and t1: "t1 \<in> set ts" and t2: "t2 \<in> set ts"
    and eq: "the (trackable t1 ''_id'') @ ''_'' @ key d1 = the (trackable t2 ''_id'') @ ''_'' @ key d2"
  from k d1 d2 have "\<not> suffix (''_'' @ key d1) (key d2)" and "\<not> suffix (''_'' @ key d2) (key d1)"
    by (auto simp: unambiguous_keys_def)
  with eq have ids: "the (trackable t1 ''_id'') = the (trackable t2 ''_id'')" and ks: "key d1 = key d2"
    using uid_split by blast+
  from k have "inj_on key (set ds)"
    by (simp add: unambiguous_keys_def distinct_map)
  with ks d1 d2 have "d1 = d2" by (auto dest: inj_onD)
  moreover
  from w t1 t2 have "has_ids t1" and "has_ids t2" by blast+
  then obtain i1 i2
    where i: "trackable t1 ''_id'' = Some i1" "trackable t2 ''_id'' = Some i2"
    by (auto simp: has_ids_def)
  from ids have "i1 = i2" by (simp only: i option.sel)
  with i have "trackable t1 ''_id'' = trackable t2 ''_id''" by simp
  with t t1 t2 have "t1 = t2"
    by (auto simp: distinct_map dest: inj_onD)
  ultimately show "d1 = d2 \<and> t1 = t2" by simp
qed

text \<open>
  Claim C3. Every constructed entity's unique id is the trackable identifier, an
  underscore and the description's key. Over the list setup produces, the unique ids are
  pairwise distinct when the trackable identifiers are pairwise distinct; the imported
  key names enter as \<open>unambiguous_keys\<close>, which the release's names satisfy.
\<close>

theorem unique_id_distinct:
  assumes "data hass (DOMAIN c) = Some by_entry" and "by_entry (entry_id entry) = Some store"
    and "client_entry store = Some cl" and "trackables_entry store = Some ts"
    and "\<forall>t\<in>set ts. has_ids t"
    and "distinct (map (\<lambda>t. trackable t ''_id'') ts)"
    and "unambiguous_keys (map key (SENSOR_TYPES c))"
  shows "\<exists>es. async_setup_entry c hass entry add = Inr (add es) \<and>
              distinct (map attr_unique_id es) \<and>
              (\<forall>cl' item d e tid.
                 TractiveSensor_init cl' item d = Inr e \<and> trackable item ''_id'' = Some tid
                 \<longrightarrow> attr_unique_id e = tid @ ''_'' @ key d)"
proof -
  let ?ds = "SENSOR_TYPES c"
  let ?f = "\<lambda>(d, t). the (trackable t ''_id'') @ ''_'' @ key d"
  from setup_entities [OF assms(5)] obtain es
    where f: "for_descriptions cl ?ds ts = Inr es"
      and r: "list_all2 (\<lambda>e (d, t). TractiveSensor_init cl t d = Inr e) es (List.product ?ds ts)"
    by blast
  have a: "async_setup_entry c hass entry add = Inr (add es)"
    using setup_lookup [OF assms(1-4)] f by simp
  from assms(7) have "distinct ?ds"
    by (simp add: unambiguous_keys_def distinct_map)
  moreover from assms(6) have "distinct ts"
    by (simp add: distinct_map)
  ultimately have "distinct (List.product ?ds ts)"
    by (rule distinct_product)
  with unique_id_inj [OF assms(7,6,5)] have "distinct (map ?f (List.product ?ds ts))"
    by (simp add: distinct_map)
  then have d: "distinct (map attr_unique_id es)"
    by (simp only: unique_ids_of_product [OF r])
  have "attr_unique_id e = tid @ ''_'' @ key d"
    if "TractiveSensor_init cl' item d = Inr e" and "trackable item ''_id'' = Some tid"
    for cl' item d e tid
    using init_InrD [OF that(1)] that(2) by auto
  with a d show ?thesis by blast
qed

lemma home_distinct: "distinct (map (\<lambda>t. trackable t ''_id'') [pet_a, pet_b])"
  by (simp add: pet_a_def pet_b_def)

lemma release_keys: "unambiguous_keys (map key (SENSOR_TYPES release_const))"
  by code_simp

theorem unique_id_distinct_witness:
  "\<exists>es. async_setup_entry release_const home home_entry (\<lambda>es. es) = Inr es \<and>
        distinct (map attr_unique_id es)"
  using unique_id_distinct [OF home_data home_by_entry home_client home_trackables home_has_ids
      home_distinct release_keys, of "\<lambda>es. es"]
  by blast

section \<open>Status updates\<close>

lemma handle_ok:
  "event (key (entity_description self)) = Some v \<Longrightarrow>
   handle_status_update self event =
     Inr (self\<lparr>attr_native_value := Some (value_fn (entity_description self) v),
              attr_available := True\<rparr>)"
  by (simp add: handle_status_update_def getitem_def TractiveEntity_handle_status_update_def)

lemma label_descriptions:
  "key (SENSOR_TYPES c ! 8) = ATTR_SLEEP_LABEL c"
  "key (SENSOR_TYPES c ! 9) = ATTR_ACTIVITY_LABEL c"
  "value_fn (SENSOR_TYPES c ! 8) = lower_if_str (str_lower c)"
  "value_fn (SENSOR_TYPES c ! 9) = lower_if_str (str_lower c)"
  by (simp_all add: SENSOR_TYPES_def Description_def)

text \<open>
  Claim C4. The two label descriptions are the entries 8 and 9 of the table (sleep label
  and activity label). For an entity of either, \<open>handle_status_update\<close> on an event
  whose value at the description's key is a string \<open>s\<close> stores that string lower-cased,
  that is \<open>s.lower()\<close>, whatever function \<open>str.lower\<close> is; on an event whose value
  there is not a string it stores the value as it is.
\<close>

theorem label_values_lowered:
  assumes "entity_description self = SENSOR_TYPES c ! 8 \<or>
           entity_description self = SENSOR_TYPES c ! 9"
    and "event (key (entity_description self)) = Some v"
  shows "key (SENSOR_TYPES c ! 8) = ATTR_SLEEP_LABEL c \<and>
         key (SENSOR_TYPES c ! 9) = ATTR_ACTIVITY_LABEL c \<and>
         (\<exists>self'. handle_status_update self event = Inr self' \<and>
            (\<forall>s. v = PyStr s \<longrightarrow>
               attr_native_value self' = Some (PyStr (str_lower c s))) \<and>
            ((\<forall>s. v \<noteq> PyStr s) \<longrightarrow> attr_native_value self' = Some v))"
proof -
  from assms(1) have f: "value_fn (entity_description self) = lower_if_str (str_lower c)"
    by (auto simp: label_descriptions)
  have "lower_if_str (str_lower c) v = v" if "\<forall>s. v \<noteq> PyStr s"
    using that by (cases v) (simp_all add: lower_if_str_def)
  moreover have "lower_if_str (str_lower c) (PyStr s) = PyStr (str_lower c s)" for s
    by (simp add: lower_if_str_def)
  ultimately show ?thesis
    using handle_ok [of event self v] assms(2) f by (auto simp: label_descriptions)
qed

lemma ascii_lower_char_code:
  "of_char (ascii_lower_char ch) =
     (let n = (of_char ch :: nat) in if 65 \<le> n \<and> n \<le> 90 then n + 32 else n)"
  by (simp add: ascii_lower_char_def Let_def)

lemma ascii_lower_length: "length (ascii_lower s) = length s"
  by (simp add: ascii_lower_def)

lemma lower_GOOD: "str_lower release_const ''Good'' = ''good''"
proof -
  have "ascii_lower ''Good'' = ''good''" by code_simp
  then show ?thesis by (simp add: release_const_def)
qed

lemma sleep_key: "key (entity_description sleep_sensor) = ''sleep_label''"
  by (simp add: sleep_sensor_def label_descriptions release_const_def)

theorem label_values_lowered_witness:
  "(\<exists>self'. handle_status_update sleep_sensor [''sleep_label'' \<mapsto> PyStr ''Good''] = Inr self' \<and>
      attr_native_value self' = Some (PyStr ''good'')) \<and>
   (\<exists>self'. handle_status_update sleep_sensor [''sleep_label'' \<mapsto> PyInt 3] = Inr self' \<and>
      attr_native_value self' = Some (PyInt 3))"
proof -
  have d: "entity_description sleep_sensor = SENSOR_TYPES release_const ! 8 \<or>
           entity_description sleep_sensor = SENSOR_TYPES release_const ! 9"
    by (simp add: sleep_sensor_def)
  have 1: "[''sleep_label'' \<mapsto> PyStr ''Good''] (key (entity_description sleep_sensor)) = Some (PyStr ''Good'')"
    by (simp only: sleep_key fun_upd_same)
  have 2: "[''sleep_label'' \<mapsto> PyInt 3] (key (entity_description sleep_sensor)) = Some (PyInt 3)"
    by (simp only: sleep_key fun_upd_same)
  from label_values_lowered [of sleep_sensor release_const "[''sleep_label'' \<mapsto> PyStr ''Good'']"
        "PyStr ''Good''"] d 1
  obtain s1 where a1: "handle_status_update sleep_sensor [''sleep_label'' \<mapsto> PyStr ''Good''] = Inr s1"
    and b1: "\<forall>s. PyStr ''Good'' = PyStr s \<longrightarrow>
               attr_native_value s1 = Some (PyStr (str_lower release_const s))"
    by blast
  from spec [OF b1, of "''Good''"] have "attr_native_value s1 = Some (PyStr (str_lower release_const ''Good''))"
    by (simp only: simp_thms)
  then have c1: "attr_native_value s1 = Some (PyStr ''good'')"
    by (simp only: lower_GOOD)
  from label_values_lowered [of sleep_sensor release_const "[''sleep_label'' \<mapsto> PyInt 3]"
        "PyInt 3"] d 2
  obtain s2 where a2: "handle_status_update sleep_sensor [''sleep_label'' \<mapsto> PyInt 3] = Inr s2"
    and b2: "(\<forall>s. PyInt 3 \<noteq> PyStr s) \<longrightarrow> attr_native_value s2 = Some (PyInt 3)"
    by blast
  have "\<forall>s. PyInt 3 \<noteq> PyStr s" by simp
  with b2 have c2: "attr_native_value s2 = Some (PyInt 3)" by blast
  from a1 c1 a2 c2 show ?thesis by blast
qed

section \<open>The description table\<close>

text \<open>
  Claim C5, as stated: the table has nine descriptions. It has ten, whatever the
  imported names are; the count fails at the release's names.
\<close>

theorem sensor_types_not_nine: "length (SENSOR_TYPES release_const) \<noteq> 9"
  by (simp add: SENSOR_TYPES_def)

text \<open>
  Claim C5, amended: the table enumerates ten descriptions, in this order: battery
  level, tracker state, active minutes, rest minutes, calories, daily goal, day-sleep
  minutes, night-sleep minutes, sleep label and activity label.
\<close>

theorem sensor_types_ten:
  "length (SENSOR_TYPES c) = 10 \<and>
   map key (SENSOR_TYPES c) =
     [ATTR_BATTERY_LEVEL c, ATTR_TRACKER_STATE c, ATTR_MINUTES_ACTIVE c, ATTR_MINUTES_REST c,
      ATTR_CALORIES c, ATTR_DAILY_GOAL c, ATTR_MINUTES_DAY_SLEEP c, ATTR_MINUTES_NIGHT_SLEEP c,
      ATTR_SLEEP_LABEL c, ATTR_ACTIVITY_LABEL c] \<and>
   map translation_key (SENSOR_TYPES c) =
     [Some ''tracker_battery_level'', Some ''tracker_state'', Some ''activity_time'',
      Some ''rest_time'', Some ''calories'', Some ''daily_goal'', Some ''minutes_day_sleep'',
      Some ''minutes_night_sleep'', Some ''sleep'', Some ''activity'']"
  by (simp add: SENSOR_TYPES_def Description_def)

lemma identity_value_fn:
  assumes "i < length (SENSOR_TYPES c)" and "i \<noteq> 8" and "i \<noteq> 9"
  shows "value_fn (SENSOR_TYPES c ! i) = (\<lambda>state. state)"
proof -
  from assms have "i \<in> {0, 1, 2, 3, 4, 5, 6, 7}"
    by (auto simp: SENSOR_TYPES_def)
  then show ?thesis
    by (auto simp: SENSOR_TYPES_def Description_def)
qed

text \<open>
  Claim C9. For every description of the table other than the two label descriptions
  (entries 8 and 9), \<open>value_fn\<close> returns its argument, so \<open>handle_status_update\<close>
  stores the event's value at the description's key unchanged.
\<close>

theorem value_fn_identity:
  assumes "i < length (SENSOR_TYPES c)" and "i \<noteq> 8" and "i \<noteq> 9"
  shows "value_fn (SENSOR_TYPES c ! i) v = v \<and>
         (\<forall>self event. entity_description self = SENSOR_TYPES c ! i \<and>
              event (key (SENSOR_TYPES c ! i)) = Some v
            \<longrightarrow> (\<exists>self'. handle_status_update self event = Inr self' \<and>
                   attr_native_value self' = Some v))"
proof -
  have f: "value_fn (SENSOR_TYPES c ! i) = (\<lambda>state. state)"
    using assms by (rule identity_value_fn)
  have "\<exists>self'. handle_status_update self event = Inr self' \<and> attr_native_value self' = Some v"
    if "entity_description self = SENSOR_TYPES c ! i" and "event (key (SENSOR_TYPES c ! i)) = Some v"
    for self event
    using handle_ok [of event self v] that f by simp
  with f show ?thesis by simp
qed

theorem value_fn_identity_witness:
  "value_fn (SENSOR_TYPES release_const ! 4) (PyStr ''MiXed'') = PyStr ''MiXed'' \<and>
   (\<exists>self self'.
      TractiveSensor_init (Client 0) pet_a (SENSOR_TYPES release_const ! 4) = Inr self \<and>
      handle_status_update self [''calories'' \<mapsto> PyStr ''MiXed''] = Inr self' \<and>
      attr_native_value self' = Some (PyStr ''MiXed''))"
proof -
  let ?d = "SENSOR_TYPES release_const ! 4"
  have l: "4 < length (SENSOR_TYPES release_const)" by (simp add: SENSOR_TYPES_def)
  have k: "key ?d = ''calories''"
    by (simp add: SENSOR_TYPES_def Description_def release_const_def)
  have 2: "trackable pet_a ''_id'' = Some ''pet1''" by (simp add: pet_a_def)
  have 3: "tracker_details pet_a ''_id'' = Some ''hw1''" by (simp add: pet_a_def)
  from init_ok [OF 2 3, of "Client 0" ?d] obtain self
    where i: "TractiveSensor_init (Client 0) pet_a ?d = Inr self"
      and e: "entity_description self = ?d"
    by simp
  have ev: "[''calories'' \<mapsto> PyStr ''MiXed''] (key ?d) = Some (PyStr ''MiXed'')"
    by (simp only: k fun_upd_same)
  from value_fn_identity [OF l, of "PyStr ''MiXed''"]
  have v: "value_fn ?d (PyStr ''MiXed'') = PyStr ''MiXed''"
    and h: "\<forall>self event. entity_description self = ?d \<and> event (key ?d) = Some (PyStr ''MiXed'')
              \<longrightarrow> (\<exists>self'. handle_status_update self event = Inr self' \<and>
                     attr_native_value self' = Some (PyStr ''MiXed''))"
    by simp_all
  from h e ev obtain self'
    where "handle_status_update self [''calories'' \<mapsto> PyStr ''MiXed''] = Inr self'"
      and "attr_native_value self' = Some (PyStr ''MiXed'')"
    by blast
  with v i show ?thesis by blast
qed

section \<open>Events and availability\<close>

lemma for_descriptions_member:
  assumes "for_descriptions cl ds ts = Inr es" and "d \<in> set ds" and "t \<in> set ts"
  shows "\<exists>e. TractiveSensor_init cl t d = Inr e"
proof -
  from assms(2,3) have "(d, t) \<in> set (List.product ds ts)" by simp
  then obtain n where n: "n < length (List.product ds ts)" and p: "List.product ds ts ! n = (d, t)"
    by (auto simp only: in_set_conv_nth)
  from list_all2_nthD2 [OF for_descriptions_rel [OF assms(1)] n] p show ?thesis by auto
qed

lemma for_descriptions_constructed:
  assumes "for_descriptions cl ds ts = Inr es" and "e \<in> set es"
  shows "\<exists>d t. TractiveSensor_init cl t d = Inr e"
proof -
  from assms(2) obtain n where n: "n < length es" and e: "es ! n = e"
    by (auto simp only: in_set_conv_nth)
  from list_all2_nthD [OF for_descriptions_rel [OF assms(1)] n] e show ?thesis
    by (cases "List.product ds ts ! n") auto
qed

lemma setup_InrD:
  assumes "async_setup_entry c hass entry add = Inr r"
  shows "\<exists>cl ts es. for_descriptions cl (SENSOR_TYPES c) ts = Inr es \<and> r = add es"
  using assms
  by (auto simp: async_setup_entry_def split: sum.splits)

lemma dispatch_all_append:
  "dispatch_all (xs @ ys) self =
     (case dispatch_all xs self of Inl e \<Rightarrow> Inl e | Inr self' \<Rightarrow> dispatch_all ys self')"
  by (induction xs arbitrary: self) (auto split: sum.splits)

lemma dispatch_all_others:
  "\<forall>(sig, ev)\<in>set xs. sig \<noteq> dispatcher_signal self \<Longrightarrow> dispatch_all xs self = Inr self"
  by (induction xs) (auto simp: dispatcher_send_def)

lemma sleep_sensor_init:
  "TractiveSensor_init (Client 0) pet_a (SENSOR_TYPES release_const ! 8) = Inr sleep_sensor"
proof -
  let ?d = "SENSOR_TYPES release_const ! 8"
  have d: "signal_prefix ?d = ''tractive_tracker_wellness_updated''" "\<not> hardware_sensor ?d"
    "key ?d = ''sleep_label''"
    by (simp_all add: SENSOR_TYPES_def Description_def release_const_def)
  have 2: "trackable pet_a ''_id'' = Some ''pet1''" by (simp add: pet_a_def)
  have 3: "tracker_details pet_a ''_id'' = Some ''hw1''" by (simp add: pet_a_def)
  have sig: "signal_prefix ?d @ ''-'' @ (if hardware_sensor ?d then ''hw1'' else ''pet1'') =
               ''tractive_tracker_wellness_updated-pet1''"
    by (simp add: d)
  have uid: "''pet1'' @ ''_'' @ key ?d = ''pet1_sleep_label''"
    by (simp add: d)
  show ?thesis
    unfolding sleep_sensor_def using init_ok [OF 2 3, of "Client 0" ?d]
    by (simp only: sig uid)
qed

lemma sleep_sensor_in_home:
  "\<exists>es. async_setup_entry release_const home home_entry (\<lambda>es. es) = Inr es \<and>
        sleep_sensor \<in> set es"
proof -
  from setup_entities [OF home_has_ids, of "Client 0" "SENSOR_TYPES release_const"] obtain es
    where f: "for_descriptions (Client 0) (SENSOR_TYPES release_const) [pet_a, pet_b] = Inr es"
    by blast
  have a: "async_setup_entry release_const home home_entry (\<lambda>es. es) = Inr es"
    using setup_lookup [OF home_data home_by_entry home_client home_trackables, of "\<lambda>es. es"] f
    by simp
  have "8 < length (SENSOR_TYPES release_const)" by (simp add: SENSOR_TYPES_def)
  from for_descriptions_nth [OF f this, of 0]
  have l: "16 < length es"
    and i: "TractiveSensor_init (Client 0) pet_a (SENSOR_TYPES release_const ! 8) = Inr (es ! 16)"
    by simp_all
  from i have "sleep_sensor = es ! 16"
    by (simp only: sleep_sensor_init sum.inject)
  with nth_mem [OF l] have "sleep_sensor \<in> set es" by (simp only:)
  with a show ?thesis by blast
qed

text \<open>
  Claim C6. An entity that setup produced is unavailable as constructed. Events sent on
  other signals do not reach it and leave it as it is, so it stays unavailable; the
  first event sent on its own signal that carries the description's key is handled, and
  the entity is available right after. The step to available is the base handler's, and
  the routing by signal the dispatch bus's, both as the specification describes them.
\<close>

theorem availability_after_first_event:
  assumes "async_setup_entry c hass entry (\<lambda>es. es) = Inr es" and "self \<in> set es"
    and "\<forall>(sig, ev)\<in>set earlier. sig \<noteq> dispatcher_signal self"
    and "event (key (entity_description self)) = Some v"
  shows "attr_available self = False \<and>
         dispatch_all earlier self = Inr self \<and>
         (\<exists>self'. dispatch_all (earlier @ [(dispatcher_signal self, event)]) self = Inr self' \<and>
            attr_available self' = True)"
proof -
  from setup_InrD [OF assms(1)] obtain cl ts
    where "for_descriptions cl (SENSOR_TYPES c) ts = Inr es" by auto
  from for_descriptions_constructed [OF this assms(2)] obtain d t
    where "TractiveSensor_init cl t d = Inr self" by blast
  from init_InrD [OF this] have a: "attr_available self = False" by blast
  have b: "dispatch_all earlier self = Inr self"
    using assms(3) by (rule dispatch_all_others)
  have "dispatcher_send (dispatcher_signal self) event self =
          Inr (self\<lparr>attr_native_value := Some (value_fn (entity_description self) v),
                   attr_available := True\<rparr>)"
    using handle_ok [of event self v] assms(4) by (simp add: dispatcher_send_def)
  then have "\<exists>self'. dispatch_all (earlier @ [(dispatcher_signal self, event)]) self = Inr self' \<and>
            attr_available self' = True"
    by (simp add: dispatch_all_append b)
  with a b show ?thesis by blast
qed

theorem availability_after_first_event_witness:
  "attr_available sleep_sensor = False \<and>
   dispatch_all [(''tractive_tracker_wellness_updated-pet2'', [''sleep_label'' \<mapsto> PyStr ''ok''])]
     sleep_sensor = Inr sleep_sensor \<and>
   (\<exists>self'. dispatch_all
       ([(''tractive_tracker_wellness_updated-pet2'', [''sleep_label'' \<mapsto> PyStr ''ok''])] @
        [(dispatcher_signal sleep_sensor, [''sleep_label'' \<mapsto> PyStr ''Good''])])
       sleep_sensor = Inr self' \<and>
      attr_available self' = True)"
proof -
  from sleep_sensor_in_home obtain es
    where a: "async_setup_entry release_const home home_entry (\<lambda>es. es) = Inr es"
      and m: "sleep_sensor \<in> set es"
    by blast
  have o: "\<forall>(sig, ev)\<in>set [(''tractive_tracker_wellness_updated-pet2'',
               [''sleep_label'' \<mapsto> PyStr ''ok''])]. sig \<noteq> dispatcher_signal sleep_sensor"
    by (simp add: sleep_sensor_def)
  have k: "[''sleep_label'' \<mapsto> PyStr ''Good''] (key (entity_description sleep_sensor)) =
             Some (PyStr ''Good'')"
    by (simp only: sleep_key fun_upd_same)
  from availability_after_first_event [where event = "[''sleep_label'' \<mapsto> PyStr ''Good'']",
      OF a m o k]
  show ?thesis .
qed

text \<open>
  Claim C7. With \<open>ATTR_BATTERY_LEVEL = 'battery_level'\<close>, the entity of the first
  description (battery level) is registered on the hardware signal of its tracker, and
  handling the event \<open>{'battery_level': 42}\<close> sent on that signal sets its state to 42
  and its availability to true.
\<close>

theorem battery_level_example:
  assumes "ATTR_BATTERY_LEVEL c = ''battery_level''"
    and "trackable item ''_id'' = Some tid" and "tracker_details item ''_id'' = Some hid"
  shows "\<exists>self self'.
           TractiveSensor_init cl item (SENSOR_TYPES c ! 0) = Inr self \<and>
           dispatcher_signal self = TRACKER_HARDWARE_STATUS_UPDATED c @ ''-'' @ hid \<and>
           attr_available self = False \<and>
           dispatcher_send (TRACKER_HARDWARE_STATUS_UPDATED c @ ''-'' @ hid)
             [''battery_level'' \<mapsto> PyInt 42] self = Inr self' \<and>
           attr_native_value self' = Some (PyInt 42) \<and> attr_available self' = True"
proof -
  let ?d = "SENSOR_TYPES c ! 0"
  have d: "key ?d = ATTR_BATTERY_LEVEL c" "hardware_sensor ?d"
    "signal_prefix ?d = TRACKER_HARDWARE_STATUS_UPDATED c" "value_fn ?d = (\<lambda>state. state)"
    by (simp_all add: SENSOR_TYPES_def Description_def)
  from init_ok [OF assms(2,3), of cl ?d] obtain self
    where i: "TractiveSensor_init cl item ?d = Inr self"
      and s: "dispatcher_signal self = TRACKER_HARDWARE_STATUS_UPDATED c @ ''-'' @ hid"
      and a: "attr_available self = False" and e: "entity_description self = ?d"
    by (simp add: d)
  have "[''battery_level'' \<mapsto> PyInt 42] (key (entity_description self)) = Some (PyInt 42)"
    by (simp only: e d assms(1) fun_upd_same)
  from handle_ok [of "[''battery_level'' \<mapsto> PyInt 42]" self "PyInt 42"] this
  have "dispatcher_send (TRACKER_HARDWARE_STATUS_UPDATED c @ ''-'' @ hid)
          [''battery_level'' \<mapsto> PyInt 42] self =
        Inr (self\<lparr>attr_native_value := Some (PyInt 42), attr_available := True\<rparr>)"
    by (simp add: dispatcher_send_def s e d)
  with i s a show ?thesis by simp
qed

theorem battery_level_example_witness:
  "\<exists>self self'.
     TractiveSensor_init (Client 0) pet_a (SENSOR_TYPES release_const ! 0) = Inr self \<and>
     dispatcher_send ''tractive_tracker_hardware_status_updated-hw1''
       [''battery_level'' \<mapsto> PyInt 42] self = Inr self' \<and>
     attr_native_value self' = Some (PyInt 42) \<and> attr_available self' = True"
proof -
  have 1: "ATTR_BATTERY_LEVEL release_const = ''battery_level''" by (simp add: release_const_def)
  have 2: "trackable pet_a ''_id'' = Some ''pet1''" by (simp add: pet_a_def)
  have 3: "tracker_details pet_a ''_id'' = Some ''hw1''" by (simp add: pet_a_def)
  have 4: "TRACKER_HARDWARE_STATUS_UPDATED release_const @ ''-'' @ ''hw1'' =
             ''tractive_tracker_hardware_status_updated-hw1''"
    by (simp add: release_const_def)
  from battery_level_example [OF 1 2 3, of "Client 0"] show ?thesis
    unfolding 4 by blast
qed

section \<open>Lookup failures\<close>

text \<open>
  Claim C8. An event without the description's key makes \<open>handle_status_update\<close>
  raise \<open>KeyError\<close> with that key: the result is the error, no entity with a stored
  value. Construction raises \<open>KeyError('_id')\<close> when the record the
  \<open>hardware_sensor\<close> flag selects has no \<open>'_id'\<close>, and setup raises it when a
  trackable of the list lacks an identifier.
\<close>

theorem lookup_failure_propagates:
  "(event (key (entity_description self)) = None \<longrightarrow>
      handle_status_update self event = Inl (KeyError (key (entity_description self)))) \<and>
   ((if hardware_sensor d then tracker_details item else trackable item) ''_id'' = None \<longrightarrow>
      TractiveSensor_init cl item d = Inl (KeyError ''_id'')) \<and>
   (data hass (DOMAIN c) = Some by_entry \<and> by_entry (entry_id entry) = Some store \<and>
    client_entry store = Some cl \<and> trackables_entry store = Some ts \<and>
    bad \<in> set ts \<and> \<not> has_ids bad \<longrightarrow>
      async_setup_entry c hass entry add = Inl (KeyError ''_id''))"
proof (intro conjI impI)
  assume "event (key (entity_description self)) = None"
  then show "handle_status_update self event = Inl (KeyError (key (entity_description self)))"
    by (simp add: handle_status_update_def getitem_def)
next
  assume "(if hardware_sensor d then tracker_details item else trackable item) ''_id'' = None"
  then show "TractiveSensor_init cl item d = Inl (KeyError ''_id'')"
    by (cases "hardware_sensor d")
      (simp_all add: TractiveSensor_init_def TractiveEntity_init_def getitem_def)
next
  assume a: "data hass (DOMAIN c) = Some by_entry \<and> by_entry (entry_id entry) = Some store \<and>
    client_entry store = Some cl \<and> trackables_entry store = Some ts \<and>
    bad \<in> set ts \<and> \<not> has_ids bad"
  have "for_descriptions cl (SENSOR_TYPES c) ts = Inl (KeyError ''_id'')"
  proof (cases "for_descriptions cl (SENSOR_TYPES c) ts")
    case (Inl err)
    with for_descriptions_Inl [OF Inl] show ?thesis by simp
  next
    case (Inr es)
    have "SENSOR_TYPES c ! 0 \<in> set (SENSOR_TYPES c)"
      by (rule nth_mem) (simp add: SENSOR_TYPES_def)
    from for_descriptions_member [OF Inr this] a obtain e
      where "TractiveSensor_init cl bad (SENSOR_TYPES c ! 0) = Inr e" by blast
    from init_InrD [OF this] have "has_ids bad"
      by (auto simp: has_ids_def SENSOR_TYPES_def Description_def)
    with a show ?thesis by simp
  qed
  with a show "async_setup_entry c hass entry add = Inl (KeyError ''_id'')"
    by (simp add: async_setup_entry_def getitem_def getslot_def)
qed

theorem lookup_failure_propagates_witness:
  "handle_status_update sleep_sensor Map.empty = Inl (KeyError ''sleep_label'') \<and>
   TractiveSensor_init (Client 0) \<lparr>trackable = [''_id'' \<mapsto> ''pet3''], tracker_details = Map.empty\<rparr>
     (SENSOR_TYPES release_const ! 0) = Inl (KeyError ''_id'') \<and>
   async_setup_entry release_const
     \<lparr>data = [''tractive'' \<mapsto> [''entry1'' \<mapsto>
        \<lparr>client_entry = Some (Client 0),
         trackables_entry = Some [pet_a,
           \<lparr>trackable = [''_id'' \<mapsto> ''pet3''], tracker_details = Map.empty\<rparr>]\<rparr>]]\<rparr>
     home_entry (\<lambda>es. es) = Inl (KeyError ''_id'')"
proof -
  let ?bad = "\<lparr>trackable = [''_id'' \<mapsto> ''pet3''], tracker_details = Map.empty\<rparr>"
  let ?store = "\<lparr>client_entry = Some (Client 0), trackables_entry = Some [pet_a, ?bad]\<rparr>"
  let ?by_entry = "[''entry1'' \<mapsto> ?store]"
  let ?hass = "\<lparr>data = [''tractive'' \<mapsto> ?by_entry]\<rparr>"
  have 1: "Map.empty (key (entity_description sleep_sensor)) = (None :: StateType option)" by simp
  have "hardware_sensor (SENSOR_TYPES release_const ! 0)"
    by (simp add: SENSOR_TYPES_def Description_def)
  then have 2: "(if hardware_sensor (SENSOR_TYPES release_const ! 0) then tracker_details ?bad
                 else trackable ?bad) ''_id'' = None"
    by simp
  have 3: "data ?hass (DOMAIN release_const) = Some ?by_entry \<and>
           ?by_entry (entry_id home_entry) = Some ?store \<and>
           client_entry ?store = Some (Client 0) \<and>
           trackables_entry ?store = Some [pet_a, ?bad] \<and>
           ?bad \<in> set [pet_a, ?bad] \<and> \<not> has_ids ?bad"
    by (simp add: release_const_def home_entry_def has_ids_def)
  from lookup_failure_propagates [where event = Map.empty and self = sleep_sensor
      and d = "SENSOR_TYPES release_const ! 0" and item = ?bad and cl = "Client 0"
      and hass = ?hass and c = release_const and by_entry = ?by_entry and entry = home_entry
      and store = ?store and ts = "[pet_a, ?bad]" and bad = ?bad and add = "\<lambda>es. es"] 1 2 3
  show ?thesis by (simp only: sleep_key) blast
qed

end
